theory Spec2Isabelle
  imports Main
begin

section \<open>Python values, exceptions and the class namespace\<close>

text \<open>
  An exception object is its class name and its message: \<open>PyExc\<close> when the
  class derives from \<open>Exception\<close>, \<open>PyBaseExc\<close> when it derives from
  \<open>BaseException\<close> only (\<open>SystemExit\<close>, \<open>KeyboardInterrupt\<close>, a class of the
  user).  The message of an exception raised by the interpreter itself is not
  modelled (it is empty).
\<close>

datatype exn = PyExc string string | PyBaseExc string string

abbreviation TypeError :: exn where "TypeError \<equiv> PyExc ''TypeError'' []"
abbreviation AttributeError :: exn where "AttributeError \<equiv> PyExc ''AttributeError'' []"
abbreviation IndexError :: exn where "IndexError \<equiv> PyExc ''IndexError'' []"
abbreviation ValueError :: exn where "ValueError \<equiv> PyExc ''ValueError'' []"

text \<open>
  \<open>VObj\<close> stands for an opaque object (not callable, not iterable, equal only
  to itself).  A \<open>bool\<close> is an instance of \<open>int\<close> in Python and compares and
  hashes as 0 or 1; \<open>norm\<close> is that identification.
\<close>

datatype pyval = VNone | VBool bool | VInt int | VStr string | VExn exn | VObj nat

fun int_of :: "pyval \<Rightarrow> int option" where
  "int_of (VInt i) = Some i"
| "int_of (VBool b) = Some (if b then 1 else 0)"
| "int_of _ = None"

fun norm :: "pyval \<Rightarrow> pyval" where
  "norm (VBool b) = VInt (if b then 1 else 0)"
| "norm v = v"

definition py_eq :: "pyval \<Rightarrow> pyval \<Rightarrow> bool" where
  "py_eq a b = (norm a = norm b)"

text \<open>
  What a name of the class \<open>Verbosity\<close> is bound to: a plain value, the list
  \<open>_verbosities\<close>, the dictionary \<open>_verbositiesmap\<close> (keys normalised), or
  \<open>Defn n\<close>, the object that the class body bound to the name \<open>n\<close> (a method,
  \<open>_Internal_Dummy\<close>, \<open>PARAMETERS\<close>).  The list and the dictionary are each
  reached through one name only.  Besides the names of the class body the
  namespace holds \<open>__module__\<close>, \<open>__doc__\<close>, \<open>__dict__\<close> and \<open>__weakref__\<close>,
  which the class statement binds; an interpreter may bind further names of
  that form.
\<close>

datatype attr = Val pyval | ListObj "pyval list" | DictObj "pyval \<rightharpoonup> pyval" | Defn string

datatype event = Write string | Flush

text \<open>
  The state: \<open>VerbosityMeta._is_internal_op\<close>, the namespace of the class
  \<open>Verbosity\<close>, the \<open>nonlocal rethrow\<close> variable of every \<open>printer\<close> call (by
  address), and what the output sink has received.
\<close>

record vstate =
  is_internal_op :: bool
  attrs :: "string \<rightharpoonup> attr"
  cells :: "nat \<Rightarrow> pyval"
  sink :: "event list"

type_synonym 'a res = "(exn + 'a) \<times> vstate"

definition init_map :: "pyval \<rightharpoonup> pyval" where
  "init_map = [VStr ''NONE'' \<mapsto> VInt 0, VStr ''INFO'' \<mapsto> VInt 1,
               VStr ''DEBUG'' \<mapsto> VInt 2, VStr ''TOTAL'' \<mapsto> VInt 3,
               VInt 0 \<mapsto> VStr ''NONE'', VInt 1 \<mapsto> VStr ''INFO'',
               VInt 2 \<mapsto> VStr ''DEBUG'', VInt 3 \<mapsto> VStr ''TOTAL'']"

definition init_attrs :: "string \<rightharpoonup> attr" where
  "init_attrs = [''NONE'' \<mapsto> Val (VInt 0), ''INFO'' \<mapsto> Val (VInt 1),
     ''DEBUG'' \<mapsto> Val (VInt 2), ''TOTAL'' \<mapsto> Val (VInt 3),
     ''_verbosities'' \<mapsto> ListObj [VInt 0, VInt 1, VInt 2, VInt 3],
     ''_verbositiesmap'' \<mapsto> DictObj init_map,
     ''level'' \<mapsto> Val (VInt 0),
     ''_Internal_Dummy'' \<mapsto> Defn ''_Internal_Dummy'',
     ''PARAMETERS'' \<mapsto> Defn ''PARAMETERS'',
     ''get_verbosities'' \<mapsto> Defn ''get_verbosities'',
     ''set'' \<mapsto> Defn ''set'', ''add'' \<mapsto> Defn ''add'',
     ''_del_key'' \<mapsto> Defn ''_del_key'', ''remove'' \<mapsto> Defn ''remove'',
     ''_handle_msg'' \<mapsto> Defn ''_handle_msg'', ''printer'' \<mapsto> Defn ''printer'',
     ''__module__'' \<mapsto> Defn ''__module__'', ''__doc__'' \<mapsto> Defn ''__doc__'',
     ''__dict__'' \<mapsto> Defn ''__dict__'', ''__weakref__'' \<mapsto> Defn ''__weakref__'']"

definition init_state :: vstate where
  "init_state = \<lparr>is_internal_op = False, attrs = init_attrs,
                  cells = (\<lambda>_. VNone), sink = []\<rparr>"

subsection \<open>Attribute access on the class\<close>

text \<open>
  \<open>self._is_internal_op is False\<close>, read on the class: an attribute of the
  class itself shadows the one of the metaclass.
\<close>

definition internal_op_is_False :: "vstate \<Rightarrow> bool" where
  "internal_op_is_False s =
     (case attrs s ''_is_internal_op'' of
        None \<Rightarrow> \<not> is_internal_op s
      | Some (Val (VBool b)) \<Rightarrow> \<not> b
      | Some _ \<Rightarrow> False)"

definition getattr_cls :: "vstate \<Rightarrow> string \<Rightarrow> exn + attr" where
  "getattr_cls s name = (case attrs s name of None \<Rightarrow> Inl AttributeError | Some a \<Rightarrow> Inr a)"

text \<open>
  What \<open>type.__setattr__\<close> and \<open>type.__delattr__\<close> make of a name.  On a few
  names the interpreter does not touch the namespace of the class:
  \<open>__name__\<close> and \<open>__qualname__\<close> take a string only, \<open>__bases__\<close> takes a
  tuple and \<open>__class__\<close> a compatible class (no value of the model is one),
  and the names of the last list are read-only.  None of them can be deleted.
  All these names begin and end with two underscores (\<open>dunder\<close>).
\<close>

datatype name_kind = Ordinary | StrOnly | Refused | ReadOnly

definition name_kind :: "string \<Rightarrow> name_kind" where
  "name_kind n =
     (if n \<in> set [''__name__'', ''__qualname__''] then StrOnly
      else if n \<in> set [''__bases__'', ''__class__''] then Refused
      else if n \<in> set [''__dict__'', ''__mro__'', ''__base__'', ''__basicsize__'',
                          ''__itemsize__'', ''__flags__'', ''__weakrefoffset__'',
                          ''__dictoffset__'', ''__text_signature__''] then ReadOnly
      else Ordinary)"


text \<open>
  \<open>type.__setattr__\<close>.  A string assigned to \<open>__name__\<close> or \<open>__qualname__\<close>
  renames the class; the name of the class is not part of the state.
\<close>

definition type_setattr :: "vstate \<Rightarrow> string \<Rightarrow> attr \<Rightarrow> unit res" where
  "type_setattr s name v =
     (case name_kind name of
        Ordinary \<Rightarrow> (Inr (), s\<lparr>attrs := (attrs s)(name \<mapsto> v)\<rparr>)
      | StrOnly \<Rightarrow> (case v of Val (VStr _) \<Rightarrow> (Inr (), s) | _ \<Rightarrow> (Inl TypeError, s))
      | Refused \<Rightarrow> (Inl TypeError, s)
      | ReadOnly \<Rightarrow> (Inl AttributeError, s))"

text \<open>\<open>VerbosityMeta.__setattr__\<close>\<close>

definition meta_setattr :: "vstate \<Rightarrow> string \<Rightarrow> attr \<Rightarrow> unit res" where
  "meta_setattr s name v =
     (if internal_op_is_False s
      then (Inl (PyExc ''ValueError'' ''Can't manually modify Verbosity state''), s)
      else type_setattr s name v)"


text \<open>
  \<open>_safe_verbosity_modify\<close>: the flag is set, the function runs, the flag is
  cleared; the function's result is dropped, and nothing is cleared when the
  function raises.
\<close>

definition safe_verbosity_modify :: "(vstate \<Rightarrow> 'a res) \<Rightarrow> vstate \<Rightarrow> pyval res" where
  "safe_verbosity_modify func s =
     (case func (s\<lparr>is_internal_op := True\<rparr>) of
        (Inl e, s') \<Rightarrow> (Inl e, s')
      | (Inr _, s') \<Rightarrow> (Inr VNone, s'\<lparr>is_internal_op := False\<rparr>))"

text \<open>
  Calling \<open>Verbosity.name(...)\<close> first looks the name up: it has to be there and
  to be the method of the class body.  An integer bound to the name (by \<open>add\<close>)
  is not callable.
\<close>

definition lookup_method :: "vstate \<Rightarrow> string \<Rightarrow> exn option" where
  "lookup_method s name =
     (case attrs s name of
        None \<Rightarrow> Some AttributeError
      | Some a \<Rightarrow> (if a = Defn name then None else Some TypeError))"

subsection \<open>The containers\<close>



text \<open>\<open>a.get(k, None)\<close>: only a dictionary has \<open>get\<close>.\<close>

definition dict_get :: "attr \<Rightarrow> pyval \<Rightarrow> exn + pyval" where
  "dict_get a k =
     (case a of
        DictObj m \<Rightarrow> (case m (norm k) of None \<Rightarrow> Inr VNone | Some v \<Rightarrow> Inr v)
      | _ \<Rightarrow> Inl AttributeError)"


text \<open>\<open>a.count(k)\<close> for an integer \<open>k\<close>: a list counts, a string refuses an integer.\<close>

definition count_int :: "attr \<Rightarrow> pyval \<Rightarrow> exn + nat" where
  "count_int a k =
     (case a of
        ListObj l \<Rightarrow> Inr (length (filter (\<lambda>x. py_eq x k) l))
      | Val (VStr _) \<Rightarrow> Inl TypeError
      | _ \<Rightarrow> Inl AttributeError)"


text \<open>\<open>dict(a)\<close>\<close>

fun dict_of_seq :: "pyval list \<Rightarrow> (pyval \<rightharpoonup> pyval) \<Rightarrow> exn + (pyval \<rightharpoonup> pyval)" where
  "dict_of_seq [] acc = Inr acc"
| "dict_of_seq (VStr [a, b] # xs) acc = dict_of_seq xs (acc(VStr [a] \<mapsto> VStr [b]))"
| "dict_of_seq (VStr _ # xs) acc = Inl ValueError"
| "dict_of_seq (_ # xs) acc = Inl TypeError"

definition py_dict :: "attr \<Rightarrow> exn + (pyval \<rightharpoonup> pyval)" where
  "py_dict a =
     (case a of
        DictObj m \<Rightarrow> Inr m
      | ListObj l \<Rightarrow> dict_of_seq l Map.empty
      | Val (VStr t) \<Rightarrow> (if t = [] then Inr Map.empty else Inl ValueError)
      | _ \<Rightarrow> Inl TypeError)"

section \<open>The level registry\<close>

definition get_verbosities :: "vstate \<Rightarrow> exn + (pyval \<rightharpoonup> pyval)" where
  "get_verbosities s =
     (case getattr_cls s ''_verbositiesmap'' of Inl e \<Rightarrow> Inl e | Inr a \<Rightarrow> py_dict a)"


text \<open>
  The body of \<open>set\<close>.  \<open>verify\<close> is the truth of \<open>verify is True\<close>.  The value
  returned is the attribute read from \<open>cls.level\<close>.
\<close>

definition swap_level :: "vstate \<Rightarrow> pyval \<Rightarrow> attr res" where
  "swap_level s vb =
     (case getattr_cls s ''level'' of
        Inl e \<Rightarrow> (Inl e, s)
      | Inr v \<Rightarrow> (case meta_setattr s ''level'' (Val vb) of
                   (Inl e, s') \<Rightarrow> (Inl e, s')
                 | (Inr _, s') \<Rightarrow> (Inr v, s')))"

definition set_func :: "vstate \<Rightarrow> pyval \<Rightarrow> bool \<Rightarrow> attr res" where
  "set_func s new_verbosity verify =
     (case new_verbosity of
        VStr n \<Rightarrow>
          (case getattr_cls s ''_verbositiesmap'' of
             Inl e \<Rightarrow> (Inl e, s)
           | Inr a \<Rightarrow>
               (case dict_get a (VStr n) of
                  Inl e \<Rightarrow> (Inl e, s)
                | Inr vb \<Rightarrow>
                    if verify \<and> vb = VNone then (Inr (Val VNone), s)
                    else swap_level s vb))
      | _ \<Rightarrow>
          (case int_of new_verbosity of
             Some i \<Rightarrow>
               (if verify then
                  (case getattr_cls s ''_verbosities'' of
                     Inl e \<Rightarrow> (Inl e, s)
                   | Inr a \<Rightarrow>
                       (case count_int a new_verbosity of
                          Inl e \<Rightarrow> (Inl e, s)
                        | Inr c \<Rightarrow> if c = 0 then (Inr (Val VNone), s)
                                   else swap_level s new_verbosity))
                else swap_level s new_verbosity)
           | None \<Rightarrow> (Inl (PyExc ''TypeError'' ''new_verbosity has to be int or str''), s)))"

text \<open>\<open>Verbosity.set(new_verbosity, verify)\<close> as a caller sees it.\<close>

definition Verbosity_set :: "vstate \<Rightarrow> pyval \<Rightarrow> bool \<Rightarrow> pyval res" where
  "Verbosity_set s new_verbosity verify =
     (case lookup_method s ''set'' of
        Some e \<Rightarrow> (Inl e, s)
      | None \<Rightarrow> safe_verbosity_modify (\<lambda>s. set_func s new_verbosity verify) s)"

text \<open>
  The body of \<open>add\<close>.  The text of its \<open>TypeError\<close> (which shows the types of
  the arguments) is not modelled.  The list and the dictionary are changed in
  place, through the names they are bound to.
\<close>

definition list_append :: "vstate \<Rightarrow> pyval \<Rightarrow> unit res" where
  "list_append s v =
     (case getattr_cls s ''_verbosities'' of
        Inr (ListObj l) \<Rightarrow> (Inr (), s\<lparr>attrs := (attrs s)(''_verbosities'' \<mapsto> ListObj (l @ [v]))\<rparr>)
      | Inr _ \<Rightarrow> (Inl AttributeError, s)
      | Inl e \<Rightarrow> (Inl e, s))"

definition dict_update2 :: "vstate \<Rightarrow> pyval \<Rightarrow> pyval \<Rightarrow> unit res" where
  "dict_update2 s name_v level_v =
     (case getattr_cls s ''_verbositiesmap'' of
        Inr (DictObj m) \<Rightarrow>
          (Inr (), s\<lparr>attrs := (attrs s)(''_verbositiesmap'' \<mapsto>
                       DictObj (m(norm name_v \<mapsto> level_v, norm level_v \<mapsto> name_v)))\<rparr>)
      | Inr _ \<Rightarrow> (Inl AttributeError, s)
      | Inl e \<Rightarrow> (Inl e, s))"

definition add_func :: "vstate \<Rightarrow> pyval \<Rightarrow> pyval \<Rightarrow> unit res" where
  "add_func s verbosity_name verbosity_level =
     (case (verbosity_name, int_of verbosity_level) of
        (VStr n, Some i) \<Rightarrow>
          (case getattr_cls s ''_verbositiesmap'' of
             Inl e \<Rightarrow> (Inl e, s)
           | Inr a \<Rightarrow>
          (case dict_get a verbosity_name of
             Inl e \<Rightarrow> (Inl e, s)
           | Inr byname \<Rightarrow>
          if byname \<noteq> VNone then (Inr (), s)
          else
          (case dict_get a verbosity_level of
             Inl e \<Rightarrow> (Inl e, s)
           | Inr bylevel \<Rightarrow>
          if bylevel \<noteq> VNone then (Inr (), s)
          else if i = - 1 then (Inr (), s)
          else
          (case meta_setattr s n (Val verbosity_level) of
             (Inl e, s1) \<Rightarrow> (Inl e, s1)
           | (Inr _, s1) \<Rightarrow>
          (case list_append s1 verbosity_level of
             (Inl e, s2) \<Rightarrow> (Inl e, s2)
           | (Inr _, s2) \<Rightarrow> dict_update2 s2 verbosity_name verbosity_level)))))
      | _ \<Rightarrow> (Inl TypeError, s))"

definition Verbosity_add :: "vstate \<Rightarrow> pyval \<Rightarrow> pyval \<Rightarrow> pyval res" where
  "Verbosity_add s verbosity_name verbosity_level =
     (case lookup_method s ''add'' of
        Some e \<Rightarrow> (Inl e, s)
      | None \<Rightarrow> safe_verbosity_modify (\<lambda>s. add_func s verbosity_name verbosity_level) s)"











section \<open>The message dispatcher\<close>

text \<open>
  A user function takes positional and keyword arguments, may change the
  state, and returns or raises.  A message is a callable, a string, a tuple,
  \<open>None\<close>, or something else.  An element of a tuple is a callable, the object
  \<open>PARAMETERS\<close> of the class body, or a value.
\<close>

type_synonym kwargs = "(string \<times> pyval) list"

type_synonym pyfunc = "pyval list \<Rightarrow> kwargs \<Rightarrow> vstate \<Rightarrow> pyval res"

datatype elem = ECall pyfunc | EParams | EVal pyval

datatype msg = MCallable pyfunc | MStr string | MTuple "elem list" | MNone | MOther

text \<open>\<open>str.format\<close> is a parameter of the model: the template, then the arguments.\<close>

type_synonym formatter = "string \<Rightarrow> pyval list \<Rightarrow> exn + string"

text \<open>\<open>out.write(v)\<close> and \<open>out.flush()\<close> on a text sink, which takes strings only.\<close>

definition sink_write :: "vstate \<Rightarrow> pyval \<Rightarrow> unit res" where
  "sink_write s v =
     (case v of VStr t \<Rightarrow> (Inr (), s\<lparr>sink := sink s @ [Write t]\<rparr>) | _ \<Rightarrow> (Inl TypeError, s))"

definition sink_flush :: "vstate \<Rightarrow> vstate" where
  "sink_flush s = s\<lparr>sink := sink s @ [Flush]\<rparr>"

text \<open>\<open>msg[0] == Verbosity.PARAMETERS\<close>, given what the name is bound to.\<close>

definition elem_eq :: "elem \<Rightarrow> attr \<Rightarrow> bool" where
  "elem_eq x a =
     (case x of
        EParams \<Rightarrow> (case a of Defn n \<Rightarrow> n = ''PARAMETERS'' | _ \<Rightarrow> False)
      | EVal v \<Rightarrow> (case a of Val w \<Rightarrow> py_eq v w | _ \<Rightarrow> False)
      | ECall _ \<Rightarrow> False)"

text \<open>
  An element handed on as a fixed argument: a value is itself, a callable or
  the marker is an opaque object to the callee.
\<close>

definition arg_of :: "elem \<Rightarrow> pyval" where
  "arg_of x = (case x of EVal v \<Rightarrow> v | EParams \<Rightarrow> VObj 0 | ECall _ \<Rightarrow> VObj 1)"

definition call_elem :: "elem \<Rightarrow> pyval list \<Rightarrow> kwargs \<Rightarrow> vstate \<Rightarrow> pyval res" where
  "call_elem x args kw s = (case x of ECall f \<Rightarrow> f args kw s | _ \<Rightarrow> (Inl TypeError, s))"

definition handle_str :: "formatter \<Rightarrow> string \<Rightarrow> pyval list \<Rightarrow> pyval \<Rightarrow> pyval \<Rightarrow> vstate \<Rightarrow> pyval res" where
  "handle_str fmt m args end flush s =
     (case fmt m args of
        Inl e \<Rightarrow> (Inl e, s)
      | Inr t \<Rightarrow>
     (case sink_write s (VStr t) of
        (Inl e, s1) \<Rightarrow> (Inl e, s1)
      | (Inr _, s1) \<Rightarrow>
     (case (if length m > 0 then sink_write s1 end else (Inr (), s1)) of
        (Inl e, s2) \<Rightarrow> (Inl e, s2)
      | (Inr _, s2) \<Rightarrow> (Inr VNone, if flush = VBool True then sink_flush s2 else s2))))"

definition handle_tuple :: "elem list \<Rightarrow> pyval list \<Rightarrow> pyval \<Rightarrow> kwargs \<Rightarrow> vstate \<Rightarrow> pyval res" where
  "handle_tuple m args e kw s =
     (case m of
        [] \<Rightarrow> (Inl IndexError, s)
      | m0 # rest \<Rightarrow>
          (case getattr_cls s ''PARAMETERS'' of
             Inl x \<Rightarrow> (Inl x, s)
           | Inr p \<Rightarrow>
               (let pre = (if e \<noteq> VNone then [e] else []) in
                if elem_eq m0 p then
                  (case rest of
                     [] \<Rightarrow> (Inl IndexError, s)
                   | m1 # _ \<Rightarrow> call_elem m1 (pre @ args) kw s)
                else call_elem m0 (pre @ map arg_of rest) [] s)))"

text \<open>\<open>_handle_msg(msg, *args, e, out, end, flush, **kwargs)\<close>\<close>

definition handle_msg ::
  "formatter \<Rightarrow> msg \<Rightarrow> pyval list \<Rightarrow> pyval \<Rightarrow> pyval \<Rightarrow> pyval \<Rightarrow> kwargs \<Rightarrow> vstate \<Rightarrow> pyval res" where
  "handle_msg fmt m args e end flush kw s =
     (case m of
        MCallable f \<Rightarrow>
          (case (if e \<noteq> VNone then f [e] [] s else f [] [] s) of
             (Inl x, s') \<Rightarrow> (Inl x, s')
           | (Inr _, s') \<Rightarrow> (Inr VNone, s'))
      | MStr t \<Rightarrow> handle_str fmt t args end flush s
      | MTuple elems \<Rightarrow> handle_tuple elems args e kw s
      | MNone \<Rightarrow> (Inr VNone, s)
      | MOther \<Rightarrow> (Inl TypeError, s))"

section \<open>The decorator\<close>

text \<open>
  What one call of \<open>printer\<close> fixes.  Its \<open>rethrow\<close> is a variable that the
  wrapper assigns (\<open>nonlocal\<close>), so the binding holds the address of the
  variable and the state holds its value.  The sink is the one of the state.
\<close>

record binding =
  verb :: pyval
  msg_before :: msg
  msg_after :: msg
  msg_except :: msg
  rethrow_cell :: nat
  bubble :: pyval
  out_end :: pyval
  flush :: pyval

text \<open>\<open>printer(verb, ...)\<close>: the closure, with its \<open>rethrow\<close> variable at \<open>cell\<close>.\<close>

definition printer ::
  "vstate \<Rightarrow> nat \<Rightarrow> pyval \<Rightarrow> msg \<Rightarrow> msg \<Rightarrow> msg \<Rightarrow> pyval \<Rightarrow> pyval \<Rightarrow> pyval \<Rightarrow> pyval
     \<Rightarrow> binding \<times> vstate" where
  "printer s cell vb before after exc rethrow bub oend fl =
     (\<lparr>verb = vb, msg_before = before, msg_after = after, msg_except = exc,
       rethrow_cell = cell, bubble = bub, out_end = oend, flush = fl\<rparr>,
      s\<lparr>cells := (cells s)(cell := rethrow)\<rparr>)"

text \<open>
  The call \<open>cls._handle_msg(m, out=out, out_end=out_end, flush=flush, *args, **kwargs)\<close>,
  with \<open>e=e\<close> as well in the handler: a keyword given twice is a \<open>TypeError\<close>;
  \<open>e\<close> and \<open>end\<close> are taken from the caller's keywords when they are there;
  \<open>out_end\<close> is one of the remaining keywords.
\<close>

definition call_handle_msg ::
  "formatter \<Rightarrow> binding \<Rightarrow> msg \<Rightarrow> pyval list \<Rightarrow> exn option \<Rightarrow> kwargs \<Rightarrow> vstate \<Rightarrow> pyval res" where
  "call_handle_msg fmt b m args eo kw s =
     (case lookup_method s ''_handle_msg'' of
        Some x \<Rightarrow> (Inl x, s)
      | None \<Rightarrow>
          if list_ex (\<lambda>k. k \<in> set [''msg'', ''out'', ''out_end'', ''flush''] \<or> (eo \<noteq> None \<and> k = ''e''))
               (map fst kw)
          then (Inl TypeError, s)
          else
            handle_msg fmt m args
              (case eo of Some x \<Rightarrow> VExn x
                        | None \<Rightarrow> (case map_of kw ''e'' of Some v \<Rightarrow> v | None \<Rightarrow> VNone))
              (case map_of kw ''end'' of Some v \<Rightarrow> v | None \<Rightarrow> VStr [CHR 0x0A])
              (flush b)
              ((''out_end'', out_end b) # filter (\<lambda>(k, _). k \<noteq> ''e'' \<and> k \<noteq> ''end'') kw)
              s)"

text \<open>\<open>except Exception\<close>\<close>

definition is_Exception :: "exn \<Rightarrow> bool" where
  "is_Exception e = (case e of PyExc _ _ \<Rightarrow> True | PyBaseExc _ _ \<Rightarrow> False)"

text \<open>\<open>verb == cls.level\<close>\<close>

definition level_matches :: "pyval \<Rightarrow> attr \<Rightarrow> bool" where
  "level_matches v a = (case a of Val w \<Rightarrow> py_eq v w | _ \<Rightarrow> False)"

text \<open>The \<open>try\<close> block of the wrapper.\<close>

definition wrapper_try :: "binding \<Rightarrow> pyfunc \<Rightarrow> pyval list \<Rightarrow> kwargs \<Rightarrow> vstate \<Rightarrow> unit res" where
  "wrapper_try b func args kw s =
     (case getattr_cls s ''level'' of
        Inl e \<Rightarrow> (Inl e, s)
      | Inr v \<Rightarrow>
     (case (if bubble b = VBool False then meta_setattr s ''level'' (Val (VInt (- 1)))
            else (Inr (), s)) of
        (Inl e, s1) \<Rightarrow> (Inl e, s1)
      | (Inr _, s1) \<Rightarrow>
     (case func args kw s1 of
        (Inl e, s2) \<Rightarrow> (Inl e, s2)
      | (Inr _, s2) \<Rightarrow> meta_setattr s2 ''level'' v)))"

text \<open>The \<open>except\<close> and \<open>else\<close> clauses, given how the \<open>try\<close> block ended.\<close>

definition wrapper_handlers ::
  "formatter \<Rightarrow> binding \<Rightarrow> pyval list \<Rightarrow> kwargs \<Rightarrow> unit res \<Rightarrow> pyval res" where
  "wrapper_handlers fmt b args kw r =
     (case r of
        (Inl e, s2) \<Rightarrow>
          if is_Exception e then
            (case call_handle_msg fmt b (msg_except b) args (Some e) kw s2 of
               (Inl x, s3) \<Rightarrow> (Inl x, s3)
             | (Inr _, s3) \<Rightarrow>
                 if cells s3 (rethrow_cell b) = VBool True then (Inl e, s3)
                 else (Inr VNone, s3))
          else (Inl e, s2)
      | (Inr _, s2) \<Rightarrow>
          (case call_handle_msg fmt b (msg_after b) args None kw s2 of
             (Inl x, s3) \<Rightarrow> (Inl x, s3)
           | (Inr _, s3) \<Rightarrow> (Inr VNone, s3)))"

text \<open>
  The matched path of the wrapper: the check of \<open>rethrow\<close>, its assignment,
  the message before, the \<open>try\<close> block and its handlers.
\<close>

definition wrapper_matched ::
  "formatter \<Rightarrow> binding \<Rightarrow> pyfunc \<Rightarrow> pyval list \<Rightarrow> kwargs \<Rightarrow> vstate \<Rightarrow> pyval res" where
  "wrapper_matched fmt b func args kw s =
     (let r = cells s (rethrow_cell b) in
      if (case r of VBool _ \<Rightarrow> False | VNone \<Rightarrow> False | _ \<Rightarrow> True) then (Inl TypeError, s)
      else
        (let s0 = (case msg_except b of
                     MNone \<Rightarrow> s\<lparr>cells := (cells s)(rethrow_cell b := VBool (r \<noteq> VNone))\<rparr>
                   | _ \<Rightarrow> s)
         in
         (case call_handle_msg fmt b (msg_before b) args None kw s0 of
            (Inl e, s1) \<Rightarrow> (Inl e, s1)
          | (Inr _, s1) \<Rightarrow> wrapper_handlers fmt b args kw (wrapper_try b func args kw s1))))"

text \<open>The wrapper before \<open>_safe_verbosity_modify\<close> is applied to it.\<close>

definition wrapper_func ::
  "formatter \<Rightarrow> binding \<Rightarrow> pyfunc \<Rightarrow> pyval list \<Rightarrow> kwargs \<Rightarrow> vstate \<Rightarrow> pyval res" where
  "wrapper_func fmt b func args kw s =
     (case getattr_cls s ''level'' of
        Inl e \<Rightarrow> (Inl e, s)
      | Inr lv \<Rightarrow>
          if level_matches (verb b) lv then wrapper_matched fmt b func args kw s
          else (case func args kw s of
                  (Inl e, s') \<Rightarrow> (Inl e, s')
                | (Inr _, s') \<Rightarrow> (Inr VNone, s')))"

text \<open>The decorated function: what \<open>printer(...)(func)\<close> is.\<close>

definition wrapper ::
  "formatter \<Rightarrow> binding \<Rightarrow> pyfunc \<Rightarrow> pyval list \<Rightarrow> kwargs \<Rightarrow> vstate \<Rightarrow> pyval res" where
  "wrapper fmt b func args kw s = safe_verbosity_modify (wrapper_func fmt b func args kw) s"

section \<open>A formatter for plain templates\<close>

text \<open>
  \<open>format_simple\<close> is \<open>str.format\<close> on the templates whose replacement fields
  are all the empty field \<open>{}\<close> (with the escapes \<open>{{\<close> and \<open>}}\<close>) and whose
  arguments are \<open>None\<close>, booleans, integers, strings or exceptions.  Other
  templates and arguments are outside of it (it answers with an error there).
\<close>

fun digits :: "nat \<Rightarrow> string" where
  "digits n = (if n < 10 then [char_of (48 + n)] else digits (n div 10) @ [char_of (48 + n mod 10)])"

definition str_int :: "int \<Rightarrow> string" where
  "str_int i = (if i < 0 then CHR ''-'' # digits (nat (- i)) else digits (nat i))"

fun str_of :: "pyval \<Rightarrow> string option" where
  "str_of VNone = Some ''None''"
| "str_of (VBool b) = Some (if b then ''True'' else ''False'')"
| "str_of (VInt i) = Some (str_int i)"
| "str_of (VStr t) = Some t"
| "str_of (VExn (PyExc c m)) = Some m"
| "str_of (VExn (PyBaseExc c m)) = Some m"
| "str_of (VObj _) = None"

definition prefix_res :: "string \<Rightarrow> exn + string \<Rightarrow> exn + string" where
  "prefix_res p r = (case r of Inl e \<Rightarrow> Inl e | Inr t \<Rightarrow> Inr (p @ t))"

fun format_simple :: formatter where
  "format_simple [] args = Inr []"
| "format_simple [c] args = (if c = CHR ''{'' \<or> c = CHR ''}'' then Inl ValueError else Inr [c])"
| "format_simple (c # d # cs) args =
     (if c = CHR ''{'' then
        (if d = CHR ''{'' then prefix_res ''{'' (format_simple cs args)
         else if d = CHR ''}'' then
           (case args of
              [] \<Rightarrow> Inl IndexError
            | a # as \<Rightarrow> (case str_of a of
                          None \<Rightarrow> Inl TypeError
                        | Some t \<Rightarrow> prefix_res t (format_simple cs as)))
         else Inl ValueError)
      else if c = CHR ''}'' then
        (if d = CHR ''}'' then prefix_res ''}'' (format_simple cs args) else Inl ValueError)
      else prefix_res [c] (format_simple (d # cs) args))"

declare digits.simps [simp del]

section \<open>User functions and the bindings of the scenarios\<close>

text \<open>
  User functions to decorate: one that raises, one that returns, one whose
  first statement is the direct assignment \<open>Verbosity.name = v\<close>, one that
  begins with a list of such assignments (\<open>bind_all\<close> is what they do to the
  class when none is refused), and one that first calls \<open>Verbosity.set(nv)\<close>.  \<open>info_state\<close> is the class after
  \<open>Verbosity.set('INFO')\<close>; \<open>info_binding\<close> is
  \<open>printer(Verbosity.INFO, "start", "done", bubble=bub)\<close> made in that state.
  \<open>matches\<close> is the match check of the wrapper; \<open>plain_msg\<close> says that
  dispatching the message runs no user code.
\<close>

definition raises :: "exn \<Rightarrow> pyfunc" where
  "raises e args kw s = (Inl e, s)"

definition returns :: "pyval \<Rightarrow> pyfunc" where
  "returns v args kw s = (Inr v, s)"





definition info_state :: vstate where
  "info_state = snd (Verbosity_set init_state (VStr ''INFO'') True)"

definition info_binding :: "pyval \<Rightarrow> binding \<times> vstate" where
  "info_binding bub = printer info_state 0 (VInt 1) (MStr ''start'') (MStr ''done'') MNone VNone
     bub (VStr [CHR 0x0A]) (VBool True)"



section \<open>Properties of the level registry\<close>

lemmas set_defs = Verbosity_set_def lookup_method_def safe_verbosity_modify_def set_func_def
  swap_level_def getattr_cls_def dict_get_def count_int_def meta_setattr_def type_setattr_def
  name_kind_def internal_op_is_False_def

lemmas init_defs = init_state_def init_attrs_def init_map_def

text \<open>
  C4 (set returns the prior active level).  The body of \<open>set\<close> assigns the new
  level and returns the old one, as its docstring says, but
  \<open>_safe_verbosity_modify\<close> drops what the body returns: on the initial state,
  \<open>Verbosity.set('INFO')\<close> makes the level 1 and returns \<open>None\<close>, where the body
  had returned the prior level 0.
\<close>

theorem C4_set_result_dropped:
  "fst (Verbosity_set init_state (VStr ''INFO'') True) = Inr VNone
   \<and> attrs (snd (Verbosity_set init_state (VStr ''INFO'') True)) ''level'' = Some (Val (VInt 1))
   \<and> fst (set_func (init_state\<lparr>is_internal_op := True\<rparr>) (VStr ''INFO'') True) = Inr (Val (VInt 0))"
  by (simp add: set_defs init_defs)

text \<open>
  C5 (the guard is closed again after every mutating operation, also when it
  raises).  \<open>_safe_verbosity_modify\<close> clears the flag only after a normal
  return: \<open>Verbosity.set\<close> with an argument that is neither a string nor an
  integer raises \<open>TypeError\<close> and leaves the flag set, and a direct assignment
  to \<open>Verbosity.level\<close>, refused before, now goes through.
\<close>

theorem C5_guard_left_open_on_raise:
  "Verbosity_set init_state (VObj 0) True =
     (Inl (PyExc ''TypeError'' ''new_verbosity has to be int or str''),
      init_state\<lparr>is_internal_op := True\<rparr>)
   \<and> fst (meta_setattr init_state ''level'' (Val (VInt 7))) =
       Inl (PyExc ''ValueError'' ''Can't manually modify Verbosity state'')
   \<and> fst (meta_setattr (snd (Verbosity_set init_state (VObj 0) True)) ''level'' (Val (VInt 7))) =
       Inr ()"
  by (simp add: set_defs init_defs)

text \<open>
  C6 (set with a string that is no registered name and \<open>verify=False\<close> is a
  no-op).  As stated it fails: the name \<open>BOGUS\<close> is not registered and the
  call changes the level.
\<close>

theorem C6_counterexample:
  "init_map (VStr ''BOGUS'') = None
   \<and> attrs (snd (Verbosity_set init_state (VStr ''BOGUS'') False)) ''level''
       \<noteq> attrs init_state ''level''"
  by (simp add: set_defs init_defs)

text \<open>
  C6, amended: for every string that is no registered name, \<open>set\<close> with
  \<open>verify=True\<close> leaves the class as it is, and \<open>set\<close> with \<open>verify=False\<close>
  assigns \<open>None\<close> (the failed lookup) to the active level; both return \<open>None\<close>.
\<close>

theorem C6_set_unregistered_name:
  assumes "attrs s ''set'' = Some (Defn ''set'')"
    and "attrs s ''_is_internal_op'' = None"
    and "attrs s ''_verbositiesmap'' = Some (DictObj m)"
    and "m (VStr n) = None"
    and "attrs s ''level'' = Some lv"
  shows "Verbosity_set s (VStr n) True = (Inr VNone, s\<lparr>is_internal_op := False\<rparr>)
       \<and> Verbosity_set s (VStr n) False =
           (Inr VNone, s\<lparr>is_internal_op := False, attrs := (attrs s)(''level'' \<mapsto> Val VNone)\<rparr>)"
  using assms by (simp add: set_defs)

theorem C6_set_unregistered_name_witness:
  "attrs init_state ''set'' = Some (Defn ''set'')
   \<and> attrs init_state ''_is_internal_op'' = None
   \<and> attrs init_state ''_verbositiesmap'' = Some (DictObj init_map)
   \<and> init_map (VStr ''BOGUS'') = None
   \<and> attrs init_state ''level'' = Some (Val (VInt 0))
   \<and> Verbosity_set init_state (VStr ''BOGUS'') True =
       (Inr VNone, init_state\<lparr>is_internal_op := False\<rparr>)
   \<and> Verbosity_set init_state (VStr ''BOGUS'') False =
       (Inr VNone, init_state\<lparr>is_internal_op := False,
                               attrs := (attrs init_state)(''level'' \<mapsto> Val VNone)\<rparr>)"
  using C6_set_unregistered_name [of init_state init_map "''BOGUS''" "Val (VInt 0)"]
  by (simp add: init_defs)

lemmas add_defs = Verbosity_add_def lookup_method_def safe_verbosity_modify_def add_func_def
  list_append_def dict_update2_def getattr_cls_def dict_get_def meta_setattr_def
  type_setattr_def internal_op_is_False_def



lemma norm_int_of: "int_of v = Some i \<Longrightarrow> norm v = VInt i"
  by (cases v) (auto split: if_splits)










text \<open>
  C10 (\<open>add('level', v)\<close> overwrites the active level).  When \<open>level\<close> is no
  registered name and \<open>v\<close> is an integer other than -1 that is no registered
  value, \<open>add\<close> returns, the attribute \<open>level\<close> of the class is \<open>v\<close>, and the
  level is registered under the name \<open>level\<close>.
\<close>

theorem C10_add_level_overwrites_active_level:
  assumes "attrs s ''add'' = Some (Defn ''add'')"
    and "attrs s ''_is_internal_op'' = None"
    and "attrs s ''_verbositiesmap'' = Some (DictObj m)"
    and "attrs s ''_verbosities'' = Some (ListObj l)"
    and "m (VStr ''level'') = None"
    and "int_of v = Some i"
    and "i \<noteq> - 1"
    and "m (VInt i) = None"
  shows "fst (Verbosity_add s (VStr ''level'') v) = Inr VNone
       \<and> attrs (snd (Verbosity_add s (VStr ''level'') v)) ''level'' = Some (Val v)
       \<and> get_verbosities (snd (Verbosity_add s (VStr ''level'') v)) =
           Inr (m(VStr ''level'' \<mapsto> v, VInt i \<mapsto> VStr ''level''))"
  using assms by (simp add: add_defs name_kind_def norm_int_of get_verbosities_def py_dict_def)

theorem C10_add_level_overwrites_active_level_witness:
  "attrs init_state ''add'' = Some (Defn ''add'')
   \<and> attrs init_state ''_is_internal_op'' = None
   \<and> attrs init_state ''_verbositiesmap'' = Some (DictObj init_map)
   \<and> attrs init_state ''_verbosities'' = Some (ListObj [VInt 0, VInt 1, VInt 2, VInt 3])
   \<and> init_map (VStr ''level'') = None
   \<and> int_of (VInt 7) = Some 7 \<and> (7::int) \<noteq> - 1 \<and> init_map (VInt 7) = None
   \<and> attrs init_state ''level'' = Some (Val (VInt 0))
   \<and> fst (Verbosity_add init_state (VStr ''level'') (VInt 7)) = Inr VNone
   \<and> attrs (snd (Verbosity_add init_state (VStr ''level'') (VInt 7))) ''level'' = Some (Val (VInt 7))"
  using C10_add_level_overwrites_active_level
          [of init_state init_map "[VInt 0, VInt 1, VInt 2, VInt 3]" "VInt 7" 7]
  by (simp add: init_defs)

section \<open>Properties of the dispatcher and of the decorator\<close>

lemmas handle_defs = handle_msg_def handle_str_def sink_write_def sink_flush_def

lemmas wrapper_defs = wrapper_def safe_verbosity_modify_def wrapper_func_def wrapper_matched_def
  wrapper_handlers_def wrapper_try_def call_handle_msg_def lookup_method_def getattr_cls_def
  level_matches_def py_eq_def is_Exception_def meta_setattr_def type_setattr_def name_kind_def
  internal_op_is_False_def

lemma info_state_eq: "info_state = init_state\<lparr>attrs := (attrs init_state)(''level'' \<mapsto> Val (VInt 1))\<rparr>"
  by (simp add: info_state_def set_defs init_defs)

text \<open>
  C7 (a string message: the formatted string is written, the terminator
  follows exactly when the formatted string is not empty, the sink is
  flushed when \<open>flush\<close> is true).  As stated it fails: the test is
  \<open>len(msg) > 0\<close> on the template, so the template \<open>{}\<close> with an empty
  string as its argument formats to the empty string and the terminator is
  written all the same.
\<close>

theorem C7_counterexample:
  "format_simple ''{}'' [VStr ''''] = Inr ''''
   \<and> sink (snd (handle_msg format_simple (MStr ''{}'') [VStr ''''] VNone (VStr [CHR 0x0A])
                  (VBool True) [] init_state))
      = [Write '''', Write [CHR 0x0A], Flush]"
  by (simp add: handle_defs prefix_res_def init_state_def)

text \<open>
  C7, amended: when the template formats (to \<open>t\<close>) with the positional
  arguments, the dispatcher writes \<open>t\<close>, then the terminator exactly when the
  template itself is not empty, then flushes when \<open>flush\<close> is \<open>True\<close>; for the
  empty template the write of \<open>t\<close> still happens and no terminator follows.
\<close>

theorem C7_string_message:
  assumes "fmt m args = Inr t"
  shows "handle_msg fmt (MStr m) args e (VStr end) fl kw s =
     (Inr VNone,
      s\<lparr>sink := sink s @ [Write t] @ (if m \<noteq> [] then [Write end] else [])
                  @ (if fl = VBool True then [Flush] else [])\<rparr>)"
  using assms by (simp add: handle_defs)

theorem C7_string_message_witness:
  "format_simple ''{} items'' [VInt 3] = Inr ''3 items''
   \<and> handle_msg format_simple (MStr ''{} items'') [VInt 3] VNone (VStr [CHR 0x0A]) (VBool True) []
        init_state =
     (Inr VNone, init_state\<lparr>sink := [Write ''3 items'', Write [CHR 0x0A], Flush]\<rparr>)"
proof -
  have h: "format_simple ''{} items'' [VInt 3] = Inr ''3 items''"
    by code_simp
  from C7_string_message [of format_simple "''{} items''" "[VInt 3]" "''3 items''" VNone
      "[CHR 0x0A]" "VBool True" "[]" init_state] h
  show ?thesis by (simp add: init_state_def)
qed

text \<open>
  C1 (the scenario binding, the level INFO, the function raises
  \<open>ValueError("x")\<close>: \<open>start\<close> is written and the exception reaches the
  caller).  As stated it fails: with no except message, \<open>rethrow\<close> becomes
  \<open>True\<close> only when it was given; left unset it becomes \<open>False\<close>, and the
  exception does not reach the caller.
\<close>

theorem C1_counterexample:
  "fst (wrapper format_simple (fst (info_binding (VBool True))) (raises (PyExc ''ValueError'' ''x'')) [] []
         (snd (info_binding (VBool True))))
     \<noteq> Inl (PyExc ''ValueError'' ''x'')"
  by (simp add: info_binding_def printer_def info_state_eq wrapper_defs handle_defs raises_def
      prefix_res_def init_defs)

lemma first_call:
  assumes "attrs s ''level'' = Some (Val (VInt 1))"
    and "attrs s ''_handle_msg'' = Some (Defn ''_handle_msg'')"
    and "cells s c = VNone"
  shows "wrapper format_simple
           \<lparr>verb = VInt 1, msg_before = MStr ''start'', msg_after = MStr ''done'',
            msg_except = MNone, rethrow_cell = c, bubble = VBool True, out_end = oe,
            flush = VBool True\<rparr>
           (raises (PyExc ''ValueError'' ''x'')) args [] s =
         (Inr VNone,
          s\<lparr>sink := sink s @ [Write ''start'', Write [CHR 0x0A], Flush],
            cells := (cells s)(c := VBool False), is_internal_op := False\<rparr>)"
proof -
  have f: "format_simple ''start'' args = Inr ''start''"
    by (simp add: prefix_res_def)
  show ?thesis
    using assms f by (simp add: wrapper_defs handle_defs raises_def)
qed

lemma later_call:
  assumes "attrs s ''level'' = Some (Val (VInt 1))"
    and "attrs s ''_handle_msg'' = Some (Defn ''_handle_msg'')"
    and "cells s c = VBool r"
  shows "wrapper format_simple
           \<lparr>verb = VInt 1, msg_before = MStr ''start'', msg_after = MStr ''done'',
            msg_except = MNone, rethrow_cell = c, bubble = VBool True, out_end = oe,
            flush = VBool True\<rparr>
           (raises (PyExc ''ValueError'' ''x'')) args [] s =
         (Inl (PyExc ''ValueError'' ''x''),
          s\<lparr>sink := sink s @ [Write ''start'', Write [CHR 0x0A], Flush],
            cells := (cells s)(c := VBool True), is_internal_op := True\<rparr>)"
proof -
  have f: "format_simple ''start'' args = Inr ''start''"
    by (simp add: prefix_res_def)
  show ?thesis
    using assms f by (simp add: wrapper_defs handle_defs raises_def)
qed

text \<open>
  C1, amended: for that binding at the level INFO, with a function that
  raises \<open>ValueError("x")\<close>: on the first matched call (\<open>rethrow\<close> still unset)
  the decorated call writes \<open>start\<close> and the line end, flushes, sets
  \<open>rethrow\<close> to \<open>False\<close>, swallows the exception and returns \<open>None\<close>; \<open>done\<close>
  is not written.  The variable \<open>rethrow\<close> of the binding keeps what the call
  assigned, so on the second matched call, and on every call that finds
  \<open>rethrow\<close> a boolean, \<open>start\<close> is written, \<open>rethrow\<close> becomes \<open>True\<close> and
  the exception reaches the caller.
\<close>

theorem C1_first_call_swallows_later_calls_raise:
  assumes "attrs s ''level'' = Some (Val (VInt 1))"
    and "attrs s ''_handle_msg'' = Some (Defn ''_handle_msg'')"
    and "b = \<lparr>verb = VInt 1, msg_before = MStr ''start'', msg_after = MStr ''done'',
            msg_except = MNone, rethrow_cell = c, bubble = VBool True, out_end = oe,
            flush = VBool True\<rparr>"
    and "f = raises (PyExc ''ValueError'' ''x'')"
  shows "(cells s c = VNone \<longrightarrow>
            wrapper format_simple b f args [] s =
              (Inr VNone,
               s\<lparr>sink := sink s @ [Write ''start'', Write [CHR 0x0A], Flush],
                 cells := (cells s)(c := VBool False), is_internal_op := False\<rparr>)
          \<and> wrapper format_simple b f args [] (snd (wrapper format_simple b f args [] s)) =
              (Inl (PyExc ''ValueError'' ''x''),
               s\<lparr>sink := sink s @ [Write ''start'', Write [CHR 0x0A], Flush,
                                     Write ''start'', Write [CHR 0x0A], Flush],
                 cells := (cells s)(c := VBool True), is_internal_op := True\<rparr>))
       \<and> (cells s c = VBool False \<or> cells s c = VBool True \<longrightarrow>
            wrapper format_simple b f args [] s =
              (Inl (PyExc ''ValueError'' ''x''),
               s\<lparr>sink := sink s @ [Write ''start'', Write [CHR 0x0A], Flush],
                 cells := (cells s)(c := VBool True), is_internal_op := True\<rparr>))"
proof (intro conjI impI)
  assume n: "cells s c = VNone"
  show 1: "wrapper format_simple b f args [] s =
              (Inr VNone,
               s\<lparr>sink := sink s @ [Write ''start'', Write [CHR 0x0A], Flush],
                 cells := (cells s)(c := VBool False), is_internal_op := False\<rparr>)"
    unfolding assms(3,4) using assms(1,2) n by (rule first_call)
  let ?s1 = "s\<lparr>sink := sink s @ [Write ''start'', Write [CHR 0x0A], Flush],
                 cells := (cells s)(c := VBool False), is_internal_op := False\<rparr>"
  have "wrapper format_simple b f args [] ?s1 =
         (Inl (PyExc ''ValueError'' ''x''),
          ?s1\<lparr>sink := sink ?s1 @ [Write ''start'', Write [CHR 0x0A], Flush],
            cells := (cells ?s1)(c := VBool True), is_internal_op := True\<rparr>)"
    unfolding assms(3,4) using later_call [of ?s1 c False oe args] assms(1,2) by simp
  then show "wrapper format_simple b f args [] (snd (wrapper format_simple b f args [] s)) =
              (Inl (PyExc ''ValueError'' ''x''),
               s\<lparr>sink := sink s @ [Write ''start'', Write [CHR 0x0A], Flush,
                                     Write ''start'', Write [CHR 0x0A], Flush],
                 cells := (cells s)(c := VBool True), is_internal_op := True\<rparr>)"
    by (simp add: 1)
next
  assume "cells s c = VBool False \<or> cells s c = VBool True"
  then obtain r where "cells s c = VBool r" by blast
  with assms(1,2)
  show "wrapper format_simple b f args [] s =
              (Inl (PyExc ''ValueError'' ''x''),
               s\<lparr>sink := sink s @ [Write ''start'', Write [CHR 0x0A], Flush],
                 cells := (cells s)(c := VBool True), is_internal_op := True\<rparr>)"
    unfolding assms(3,4) by (rule later_call)
qed


theorem C1_first_call_swallows_later_calls_raise_witness:
  "attrs (snd (info_binding (VBool True))) ''level'' = Some (Val (VInt 1))
   \<and> attrs (snd (info_binding (VBool True))) ''_handle_msg'' = Some (Defn ''_handle_msg'')
   \<and> fst (info_binding (VBool True)) =
       \<lparr>verb = VInt 1, msg_before = MStr ''start'', msg_after = MStr ''done'',
        msg_except = MNone, rethrow_cell = 0, bubble = VBool True, out_end = VStr [CHR 0x0A],
        flush = VBool True\<rparr>
   \<and> cells (snd (info_binding (VBool True))) 0 = VNone
   \<and> fst (wrapper format_simple (fst (info_binding (VBool True)))
           (raises (PyExc ''ValueError'' ''x'')) [] [] (snd (info_binding (VBool True)))) = Inr VNone
   \<and> sink (snd (wrapper format_simple (fst (info_binding (VBool True)))
           (raises (PyExc ''ValueError'' ''x'')) [] [] (snd (info_binding (VBool True)))))
       = [Write ''start'', Write [CHR 0x0A], Flush]
   \<and> cells (snd (wrapper format_simple (fst (info_binding (VBool True)))
           (raises (PyExc ''ValueError'' ''x'')) [] [] (snd (info_binding (VBool True))))) 0
       = VBool False
   \<and> fst (wrapper format_simple (fst (info_binding (VBool True)))
           (raises (PyExc ''ValueError'' ''x'')) [] []
           (snd (wrapper format_simple (fst (info_binding (VBool True)))
              (raises (PyExc ''ValueError'' ''x'')) [] [] (snd (info_binding (VBool True))))))
       = Inl (PyExc ''ValueError'' ''x'')"
proof -
  let ?b = "fst (info_binding (VBool True))"
  let ?s = "snd (info_binding (VBool True))"
  let ?f = "raises (PyExc ''ValueError'' ''x'')"
  let ?s1 = "snd (wrapper format_simple ?b ?f [] [] ?s)"
  have h: "attrs ?s ''level'' = Some (Val (VInt 1))"
    "attrs ?s ''_handle_msg'' = Some (Defn ''_handle_msg'')"
    "?b = \<lparr>verb = VInt 1, msg_before = MStr ''start'', msg_after = MStr ''done'',
        msg_except = MNone, rethrow_cell = 0, bubble = VBool True, out_end = VStr [CHR 0x0A],
        flush = VBool True\<rparr>"
    "cells ?s 0 = VNone"
    by (simp_all add: info_binding_def printer_def info_state_eq init_defs)
  note first = C1_first_call_swallows_later_calls_raise [OF h(1) h(2) h(3) refl, of "[]"]
  from first h(4) have r1: "wrapper format_simple ?b ?f [] [] ?s =
      (Inr VNone, ?s\<lparr>sink := sink ?s @ [Write ''start'', Write [CHR 0x0A], Flush],
                 cells := (cells ?s)(0 := VBool False), is_internal_op := False\<rparr>)"
    by blast
  have e: "sink ?s = []"
    by (simp add: info_binding_def printer_def info_state_eq init_defs)
  have g: "attrs ?s1 ''level'' = Some (Val (VInt 1))"
    "attrs ?s1 ''_handle_msg'' = Some (Defn ''_handle_msg'')"
    "cells ?s1 0 = VBool False"
    using h(1,2,4) by (simp_all add: r1)
  note later = C1_first_call_swallows_later_calls_raise [OF g(1) g(2) h(3) refl, of "[]"]
  from later g(3) have r2: "fst (wrapper format_simple ?b ?f [] [] ?s1) = Inl (PyExc ''ValueError'' ''x'')"
    by simp
  have f1: "fst (wrapper format_simple ?b ?f [] [] ?s) = Inr VNone"
    by (simp add: r1)
  have f2: "sink ?s1 = [Write ''start'', Write [CHR 0x0A], Flush]"
    by (simp add: r1 e)
  from h g(3) r2 f1 f2 show ?thesis
    by blast
qed

text \<open>
  C3 (when the level of the binding is not the active level, nothing is
  dispatched and the result or exception is that of the undecorated
  function).  As stated it fails on the result: the function returns 42 and
  the decorated call returns \<open>None\<close>.
\<close>

theorem C3_counterexample:
  "fst (returns (VInt 42) [] [] init_state) = Inr (VInt 42)
   \<and> fst (wrapper format_simple (fst (printer init_state 0 (VInt 1) (MStr ''start'') (MStr ''done'') MNone VNone
         (VBool True) (VStr [CHR 0x0A]) (VBool True))) (returns (VInt 42)) [] [] init_state) = Inr VNone"
  by (simp add: printer_def wrapper_defs returns_def init_defs)

text \<open>
  C3, amended: when the level of the binding is not the active level, the
  decorated call is the call of the function under the open guard, with no
  message dispatched: an exception of the function is raised unchanged (the
  guard stays open), and when the function returns, its result is dropped, the
  guard is closed and \<open>None\<close> is returned.
\<close>

theorem C3_not_matched:
  assumes "attrs s ''level'' = Some lv"
    and "\<not> level_matches (verb b) lv"
  shows "wrapper fmt b func args kw s =
     (case func args kw (s\<lparr>is_internal_op := True\<rparr>) of
        (Inl e, s') \<Rightarrow> (Inl e, s')
      | (Inr r, s') \<Rightarrow> (Inr VNone, s'\<lparr>is_internal_op := False\<rparr>))"
  using assms
  by (simp add: wrapper_def safe_verbosity_modify_def wrapper_func_def getattr_cls_def
      split: prod.splits sum.splits)

theorem C3_not_matched_witness:
  "attrs init_state ''level'' = Some (Val (VInt 0))
   \<and> \<not> level_matches (verb (fst (info_binding (VBool True)))) (Val (VInt 0))
   \<and> wrapper format_simple (fst (info_binding (VBool True))) (returns (VInt 42)) [] [] init_state
       = (Inr VNone, init_state)
   \<and> wrapper format_simple (fst (info_binding (VBool True))) (raises (PyExc ''ValueError'' ''x'')) [] []
         init_state
       = (Inl (PyExc ''ValueError'' ''x''), init_state\<lparr>is_internal_op := True\<rparr>)"
  using C3_not_matched [of init_state "Val (VInt 0)" "fst (info_binding (VBool True))"
      format_simple "returns (VInt 42)" "[]" "[]"]
    C3_not_matched [of init_state "Val (VInt 0)" "fst (info_binding (VBool True))"
      format_simple "raises (PyExc ''ValueError'' ''x'')" "[]" "[]"]
  by (simp add: info_binding_def printer_def level_matches_def py_eq_def returns_def raises_def
      init_defs)

text \<open>
  C2 (with \<open>bubble=False\<close> the level is -1 during the call and is restored
  after it, also when the function raised).  The assignment \<open>cls.level = _v\<close>
  is the last statement of the \<open>try\<close> block and is skipped when the function
  raises: at the level 1, the decorated call of a function that raises
  \<open>ValueError("x")\<close> returns \<open>None\<close> and leaves the level at -1, where the call
  of a function that returns restores the level 1.
\<close>

theorem C2_level_not_restored:
  "attrs (snd (info_binding (VBool False))) ''level'' = Some (Val (VInt 1))
   \<and> fst (wrapper format_simple (fst (info_binding (VBool False)))
            (raises (PyExc ''ValueError'' ''x'')) [] [] (snd (info_binding (VBool False))))
       = Inr VNone
   \<and> attrs (snd (wrapper format_simple (fst (info_binding (VBool False)))
            (raises (PyExc ''ValueError'' ''x'')) [] [] (snd (info_binding (VBool False)))))
        ''level'' = Some (Val (VInt (- 1)))
   \<and> attrs (snd (wrapper format_simple (fst (info_binding (VBool False)))
            (returns VNone) [] [] (snd (info_binding (VBool False)))))
        ''level'' = Some (Val (VInt 1))"
  by (simp add: info_binding_def printer_def info_state_eq wrapper_defs handle_defs raises_def
      returns_def prefix_res_def init_defs)


lemma open_sink [simp]: "internal_op_is_False (s\<lparr>sink := x\<rparr>) = internal_op_is_False s"
  by (cases "attrs s ''_is_internal_op''") (simp_all add: internal_op_is_False_def)

lemma open_cells [simp]: "internal_op_is_False (s\<lparr>cells := x\<rparr>) = internal_op_is_False s"
  by (cases "attrs s ''_is_internal_op''") (simp_all add: internal_op_is_False_def)












end
